theory Spec2Isabelle
  imports Main "HOL-Library.Word"
begin

unbundle bit_operations_syntax

section \<open>A shallow embedding of the 8086 disassembler \<^verbatim>\<open>assembler.py\<close>\<close>

text \<open>
  The program reads a file into a list of bytes and walks it with a cursor, printing one
  line per decoded instruction. Bytes are Python integers, modelled as \<^typ>\<open>int\<close>; a byte
  that the driver could not read (\<^verbatim>\<open>None\<close>) is \<^term>\<open>None :: int option\<close>. The bit
  operators \<^verbatim>\<open>&\<close>, \<^verbatim>\<open>|\<close>, \<^verbatim>\<open><<\<close>, \<^verbatim>\<open>>>\<close> are \<open>AND\<close>, \<open>OR\<close>,
  \<^const>\<open>push_bit\<close>, \<^const>\<open>drop_bit\<close> on \<^typ>\<open>int\<close>. Exceptions are values of a sum type.
\<close>

subsection \<open>Lookup tables\<close>

definition regtable :: "string list list" where
  "regtable = [[''al'', ''cl'', ''dl'', ''bl'', ''ah'', ''ch'', ''dh'', ''bh''],
               [''ax'', ''cx'', ''dx'', ''bx'', ''sp'', ''bp'', ''si'', ''di'']]"

definition eff_add_calc :: "string list" where
  "eff_add_calc = [''bx + si'', ''bx + di'', ''bp + si'', ''bp + di'',
                   ''si'', ''di'', ''bp'', ''bx'']"

text \<open>
  Every index into the two tables is a value masked to one bit (\<^verbatim>\<open>wflag\<close>) or to three
  bits (\<^verbatim>\<open>reg_field\<close>, \<^verbatim>\<open>rm\<close>), so no lookup of the source can raise \<^verbatim>\<open>IndexError\<close>.
\<close>

subsection \<open>Python's formatting of integers\<close>

definition digit_char :: "nat \<Rightarrow> char" where
  "digit_char d = ''0123456789abcdef'' ! d"

fun dec_digits :: "nat \<Rightarrow> string" where
  "dec_digits n = (if n < 10 then [digit_char n]
                   else dec_digits (n div 10) @ [digit_char (n mod 10)])"

fun hex_digits :: "nat \<Rightarrow> string" where
  "hex_digits n = (if n < 16 then [digit_char n]
                   else hex_digits (n div 16) @ [digit_char (n mod 16)])"

declare dec_digits.simps [simp del] hex_digits.simps [simp del]

text \<open>\<^verbatim>\<open>f"{n}"\<close> for an integer \<^verbatim>\<open>n\<close>.\<close>

definition py_str :: "int \<Rightarrow> string" where
  "py_str n = (if n < 0 then ''-'' @ dec_digits (nat (- n)) else dec_digits (nat n))"

text \<open>\<^verbatim>\<open>f"{x}"\<close> for a value that is an integer or \<^verbatim>\<open>None\<close>.\<close>

definition py_str_opt :: "int option \<Rightarrow> string" where
  "py_str_opt x = (case x of None \<Rightarrow> ''None'' | Some n \<Rightarrow> py_str n)"

text \<open>\<^verbatim>\<open>f"{n:04x}"\<close>: lower-case hexadecimal, zero-padded after the sign to width 4.\<close>

definition py_hex04 :: "int \<Rightarrow> string" where
  "py_hex04 n =
     (if n < 0
      then (let ds = hex_digits (nat (- n)) in ''-'' @ replicate (3 - length ds) CHR ''0'' @ ds)
      else (let ds = hex_digits (nat n) in replicate (4 - length ds) CHR ''0'' @ ds))"

text \<open>The truth value Python gives an integer in a condition.\<close>

definition py_truthy :: "int \<Rightarrow> bool" where
  "py_truthy n = (n \<noteq> 0)"

subsection \<open>Register to register: \<^verbatim>\<open>dec_reg2reg\<close>\<close>

definition dec_reg2reg :: "int \<Rightarrow> int \<Rightarrow> string" where
  "dec_reg2reg b1 b2 =
     (let dflag = drop_bit 1 (b1 AND 0b00000010);
          wflag = b1 AND 0b00000001;
          reg_field = drop_bit 3 (b2 AND 0b00111000);
          rm_field = b2 AND 0b00000111;
          op1 = regtable ! nat wflag ! nat reg_field;
          op2 = regtable ! nat wflag ! nat rm_field;
          opcode = drop_bit 2 (b1 AND 0b11111100);
          operands = (if py_truthy dflag then op1 else op2) @ '', '' @
                     (if py_truthy dflag then op2 else op1)
      in if opcode = 0b100010 then ''mov '' @ operands
         else if opcode = 0b000000 then ''add '' @ operands
         else if opcode = 0b001010 then ''sub '' @ operands
         else if opcode = 0b001110 then ''cmp '' @ operands
         else ''Error: Invalid opcode'')"

subsection \<open>Immediate to register: \<^verbatim>\<open>dec_i2reg\<close>\<close>

definition dec_i2reg :: "int \<Rightarrow> int option \<Rightarrow> int option \<Rightarrow> string" where
  "dec_i2reg b1 b2 b3 =
     (let wflag = drop_bit 3 (b1 AND 0b00001000);
          reg = regtable ! nat wflag ! nat (b1 AND 0b00000111)
      in if wflag = 0 then
           (case b2 of
              None \<Rightarrow> ''Error: Missing immediate value''
            | Some v \<Rightarrow>
                (let imm = (if v > 127 then v - 256 else v)
                 in ''mov '' @ reg @ '', '' @ py_str imm))
         else
           (case (b2, b3) of
              (Some lo, Some hi) \<Rightarrow>
                (let imm0 = push_bit 8 hi OR lo;
                     imm = (if imm0 > 32767 then imm0 - 65536 else imm0)
                 in ''mov '' @ reg @ '', '' @ py_str imm)
            | _ \<Rightarrow> ''Error: Missing immediate word''))"

subsection \<open>Exceptions and the two shapes of a return value\<close>

text \<open>
  The only exceptions the decoder can raise are \<^verbatim>\<open>TypeError\<close> (an operator applied to
  \<^verbatim>\<open>None\<close>, or an integer added to a string) and \<^verbatim>\<open>ValueError\<close> (unpacking a value
  that does not have exactly two items).
\<close>

datatype pyexc = TypeError | ValueError

text \<open>
  \<^verbatim>\<open>imm2reg_alt\<close> returns a pair \<^verbatim>\<open>(text, instr_size)\<close> on success and a bare string on
  an invalid instruction code.
\<close>

datatype ret = RetStr string | RetTuple string nat

subsection \<open>Immediate to register or memory: \<^verbatim>\<open>imm2reg_alt\<close>\<close>

text \<open>
  \<^verbatim>\<open>b2 & 0b00111000\<close> raises \<^verbatim>\<open>TypeError\<close> when \<^verbatim>\<open>b2\<close> is \<^verbatim>\<open>None\<close>; so do
  \<^verbatim>\<open>(b4 << 8) | b3\<close> and \<^verbatim>\<open>displacement > 127\<close> when a displacement byte is
  \<^verbatim>\<open>None\<close>. The variable \<^verbatim>\<open>mod\<close> of the source is \<open>md\<close> here.
\<close>

definition imm2reg_alt ::
  "int \<Rightarrow> int option \<Rightarrow> int option \<Rightarrow> int option \<Rightarrow> int option \<Rightarrow> pyexc + ret" where
  "imm2reg_alt b1 b2 b3 b4 b5 =
     (let wflag = b1 AND 0b00000001;
          sflag = drop_bit 1 (b1 AND 0b00000010)
      in case b2 of
           None \<Rightarrow> Inl TypeError
         | Some v2 \<Rightarrow>
             (let instruction_code = drop_bit 3 (v2 AND 0b00111000);
                  rm = v2 AND 0b00000111;
                  md = drop_bit 6 (v2 AND 0b11000000);
                  instruction =
                    (case map_of [(0b000, ''add''), (0b101, ''sub''), (0b111, ''cmp'')]
                            instruction_code of
                       None \<Rightarrow> ''Error'' | Some s \<Rightarrow> s)
              in if instruction = ''Error'' then Inr (RetStr ''Error: Invalid instruction code'')
                 else
                   (let dest = (if md = 0b11 then regtable ! nat wflag ! nat rm
                                else if md = 0b00 then ''byte ['' @ eff_add_calc ! nat rm @ '']''
                                else eff_add_calc ! nat rm)
                    in if md \<in> set [0b01, 0b10] then
                         (case (if md = 0b01 then b3
                                else (case (b4, b3) of
                                        (Some hi, Some lo) \<Rightarrow> Some (push_bit 8 hi OR lo)
                                      | _ \<Rightarrow> None)) of
                            None \<Rightarrow> Inl TypeError
                          | Some d0 \<Rightarrow>
                              (let d1 = (if d0 > 127 \<and> md = 0b01 then d0 - 256 else d0);
                                   displacement =
                                     (if d1 > 32767 \<and> md = 0b10 then d1 - 65536 else d1);
                                   dest' = (if py_truthy wflag
                                            then ''word ['' @ dest @ '' + '' @ py_str displacement @ '']''
                                            else ''byte ['' @ dest @ '' + '' @ py_str displacement @ '']'');
                                   imm = (if md = 0b01 \<and> b5 = None then b4 else b5);
                                   instr_size = (if md = 0b01 then 4 else 5)
                               in Inr (RetTuple (instruction @ '' '' @ dest' @ '', '' @ py_str_opt imm)
                                         instr_size)))
                       else
                         (let imm = b3;
                              instr_size = 3
                          in Inr (RetTuple (instruction @ '' '' @ dest @ '', '' @ py_str_opt imm)
                                    instr_size)))))"

subsection \<open>Immediate to accumulator: \<^verbatim>\<open>imm2acc\<close>\<close>

text \<open>
  The condition of line 103, \<^verbatim>\<open>opcode == 0b0000010 or 0b0010110\<close>: Python parses it as
  \<^verbatim>\<open>(opcode == 0b0000010) or 0b0010110\<close>, whose value is the integer 22 when the
  comparison is false.
\<close>

definition imm2acc_guard :: "int \<Rightarrow> bool" where
  "imm2acc_guard opcode = (opcode = 0b0000010 \<or> py_truthy 0b0010110)"

definition imm2acc :: "int \<Rightarrow> int option \<Rightarrow> int option \<Rightarrow> string" where
  "imm2acc b1 b2 b3 =
     (let wflag = b1 AND 0b00000001;
          dest = regtable ! nat wflag ! 0;
          opcode = drop_bit 1 (b1 AND 0b11111110);
          instruction = (if opcode = 0b0000010 then ''add''
                         else if opcode = 0b0010110 then ''sub''
                         else ''cmp'')
      in if imm2acc_guard opcode then
           (if wflag = 0 then
              (case b2 of
                 None \<Rightarrow> ''Error: Missing immediate value''
               | Some v \<Rightarrow>
                   (let imm = (if v > 127 then v - 256 else v)
                    in instruction @ '' '' @ dest @ '', '' @ py_str imm))
            else
              (case (b2, b3) of
                 (Some lo, Some hi) \<Rightarrow>
                   (let imm0 = push_bit 8 hi OR lo;
                        imm = (if imm0 > 32767 then imm0 - 65536 else imm0)
                    in instruction @ '' '' @ dest @ '', '' @ py_str imm)
               | _ \<Rightarrow> ''Error: Missing immediate word''))
         else instruction @ '' '' @ dest @ '', '' @ py_str_opt b2)"

subsection \<open>Register with memory: \<^verbatim>\<open>dec_modrm_instr\<close>\<close>

definition dec_modrm_instr :: "int \<Rightarrow> int \<Rightarrow> int option \<Rightarrow> int option \<Rightarrow> string" where
  "dec_modrm_instr b1 b2 b3 b4 =
     (let dflag = drop_bit 1 (b1 AND 0b00000010);
          wflag = b1 AND 0b00000001;
          reg_field = drop_bit 3 (b2 AND 0b00111000);
          rm = b2 AND 0b00000111;
          md = drop_bit 6 (b2 AND 0b11000000);
          op1 = regtable ! nat wflag ! nat reg_field;
          opcode = drop_bit 2 (b1 AND 0b11111100);
          finish = (\<lambda>instruction ea.
                      instruction @ '' '' @ (if py_truthy dflag then op1 else ea) @ '', '' @
                      (if py_truthy dflag then ea else op1));
          address = (\<lambda>instruction.
            if md = 0b00 then
              (if rm = 0b110 then
                 (case (b3, b4) of
                    (Some lo, Some hi) \<Rightarrow>
                      (let addr = push_bit 8 hi OR lo
                       in finish instruction (''[0x'' @ py_hex04 addr @ '']''))
                  | _ \<Rightarrow> ''Error: Missing direct address bytes'')
               else finish instruction (''['' @ eff_add_calc ! nat rm @ '']''))
            else if md = 0b01 then
              (case b3 of
                 None \<Rightarrow> ''Error: Missing 8-bit displacement''
               | Some v3 \<Rightarrow>
                   (let disp = (if v3 < 128 then v3 else v3 - 256)
                    in finish instruction
                         (''['' @ eff_add_calc ! nat rm @ '' + '' @ py_str disp @ '']'')))
            else if md = 0b10 then
              (case (b3, b4) of
                 (Some lo, Some hi) \<Rightarrow>
                   (let disp0 = push_bit 8 hi OR lo;
                        disp = (if disp0 > 32767 then disp0 - 65536 else disp0)
                    in finish instruction (eff_add_calc ! nat rm @ '' + '' @ py_str disp))
               | _ \<Rightarrow> ''Error: Missing 16-bit displacement'')
            else ''Error: mod=3 (register addressing) should be handled elsewhere'')
      in if opcode = 0b000000 then address ''add''
         else if opcode = 0b001010 then address ''sub''
         else if opcode = 0b001110 then address ''cmp''
         else ''Error: Invalid opcode'')"

subsection \<open>The driver: \<^verbatim>\<open>disassemble\<close>\<close>

text \<open>
  What the driver prints, one constructor for each \<^verbatim>\<open>print\<close> statement, carrying the
  values that the statement formats:
  \<^item> \<open>Processing b1 i\<close>: \<^verbatim>\<open>print(f"\nProcessing byte {b1:08b} at index {i}")\<close>;
  \<^item> \<open>Using name\<close>: \<^verbatim>\<open>print("Using: name")\<close>;
  \<^item> \<open>Decoded instr used_bytes\<close>: \<^verbatim>\<open>print(f"Decoded: {instr} (bytes: ...)")\<close>;
  \<^item> \<open>MissingModrm\<close>: \<^verbatim>\<open>print("Error: Missing MODRM byte")\<close>;
  \<^item> \<open>UnknownOpcode b1 i\<close>: \<^verbatim>\<open>print(f"... Unknown opcode: {b1:08b} at index {i}")\<close>.
\<close>

datatype event =
    Processing int nat
  | Using string
  | Decoded string "int list"
  | MissingModrm
  | UnknownOpcode int nat

text \<open>How one pass through the body of the \<^verbatim>\<open>while\<close> loop ends.\<close>

datatype ctl = Continue nat | Break | Raise pyexc

text \<open>How the call of \<^verbatim>\<open>disassemble\<close> ends.\<close>

datatype outcome = Returned | Raised pyexc

text \<open>\<^verbatim>\<open>byte_list[k] if k < len(byte_list) else None\<close>\<close>

definition byte_at :: "int list \<Rightarrow> nat \<Rightarrow> int option" where
  "byte_at byte_list k = (if k < length byte_list then Some (byte_list ! k) else None)"

text \<open>The slice \<^verbatim>\<open>byte_list[i:i+instr_size]\<close>, which Python cuts at the end of the list.\<close>

definition used_bytes :: "int list \<Rightarrow> nat \<Rightarrow> nat \<Rightarrow> int list" where
  "used_bytes byte_list i instr_size = take instr_size (drop i byte_list)"

text \<open>
  The body of the loop at cursor \<open>i\<close>, entered only when \<open>i < length byte_list\<close>: the
  lines it prints and how it ends. Unpacking the result of \<^verbatim>\<open>imm2reg_alt\<close> into
  \<^verbatim>\<open>instr, instr_size\<close> raises \<^verbatim>\<open>ValueError\<close> on a string that does not have two
  characters; on one that has two, \<^verbatim>\<open>i+instr_size\<close> adds a string to an integer.
\<close>

definition iteration :: "int list \<Rightarrow> nat \<Rightarrow> event list \<times> ctl" where
  "iteration byte_list i =
     (let b1 = byte_list ! i
      in if drop_bit 2 (b1 AND 0b11111100) \<in> set [0b000000, 0b001010, 0b001110] then
           (if i + 1 \<ge> length byte_list then ([Processing b1 i, MissingModrm], Break)
            else
              (let b2 = byte_list ! (i + 1);
                   md = drop_bit 6 (b2 AND 0b11000000);
                   rm = b2 AND 0b00000111
               in if md = 0b11 then
                    (let instr = dec_reg2reg b1 b2;
                         instr_size = 2
                     in ([Processing b1 i, Using ''dec_reg2reg()'',
                          Decoded instr (used_bytes byte_list i instr_size)],
                         Continue (i + instr_size)))
                  else
                    (let displacement_size =
                           (if md = 0b00 \<and> rm = 0b110 then 2
                            else if md = 0b01 then 1
                            else if md = 0b10 then 2
                            else 0);
                         b3 = byte_at byte_list (i + 2);
                         b4 = byte_at byte_list (i + 3);
                         instr = dec_modrm_instr b1 b2 b3 b4;
                         instr_size = 2 + displacement_size
                     in ([Processing b1 i, Using ''dec_modrm_instr()'',
                          Decoded instr (used_bytes byte_list i instr_size)],
                         Continue (i + instr_size)))))
         else if drop_bit 2 (b1 AND 0b11111100) = 0b100000 then
           (let b2 = byte_at byte_list (i + 1);
                b3 = byte_at byte_list (i + 2);
                b4 = byte_at byte_list (i + 3);
                b5 = byte_at byte_list (i + 4)
            in case imm2reg_alt b1 b2 b3 b4 b5 of
                 Inl e \<Rightarrow> ([Processing b1 i, Using ''imm2reg_alt()''], Raise e)
               | Inr (RetStr s) \<Rightarrow>
                   ([Processing b1 i, Using ''imm2reg_alt()''],
                    Raise (if length s = 2 then TypeError else ValueError))
               | Inr (RetTuple instr instr_size) \<Rightarrow>
                   ([Processing b1 i, Using ''imm2reg_alt()'',
                     Decoded instr (used_bytes byte_list i instr_size)],
                    Continue (i + instr_size)))
         else if drop_bit 1 (b1 AND 0b11111110) \<in> set [0b0000010, 0b0010110, 0b0011110] then
           (let wflag = b1 AND 0b00000001;
                b2 = byte_at byte_list (i + 1);
                b3 = byte_at byte_list (i + 2);
                instr_size = (if py_truthy wflag then 3 else 2);
                instr = imm2acc b1 b2 b3
            in ([Processing b1 i, Using ''imm2acc()'',
                 Decoded instr (used_bytes byte_list i instr_size)],
                Continue (i + instr_size)))
         else ([Processing b1 i, UnknownOpcode b1 i], Continue (i + 1)))"

text \<open>
  The \<^verbatim>\<open>while i < len(byte_list)\<close> loop from cursor \<open>i\<close>: everything printed and how
  the call ends. \<^verbatim>\<open>break\<close> and a false loop condition both fall off the end of the
  function, which returns.
\<close>

function loop :: "int list \<Rightarrow> nat \<Rightarrow> event list \<times> outcome" where
  "loop byte_list i =
     (if i < length byte_list then
        (case iteration byte_list i of
           (out, Continue i') \<Rightarrow> (case loop byte_list i' of (out', r) \<Rightarrow> (out @ out', r))
         | (out, Break) \<Rightarrow> (out, Returned)
         | (out, Raise e) \<Rightarrow> (out, Raised e))
      else ([], Returned))"
  by pat_completeness auto

text \<open>The driver on the bytes of the file: the loop with the cursor at 0.\<close>

definition disassemble :: "int list \<Rightarrow> event list \<times> outcome" where
  "disassemble byte_list = loop byte_list 0"

text \<open>
  The same loop with a bound on the number of passes: \<open>None\<close> when the bound is used
  up before the loop has ended.
\<close>

fun loop_fuel :: "nat \<Rightarrow> int list \<Rightarrow> nat \<Rightarrow> (event list \<times> outcome) option" where
  "loop_fuel 0 byte_list i = None"
| "loop_fuel (Suc fuel) byte_list i =
     (if i < length byte_list then
        (case iteration byte_list i of
           (out, Continue i') \<Rightarrow>
             (case loop_fuel fuel byte_list i' of
                None \<Rightarrow> None
              | Some (out', r) \<Rightarrow> Some (out @ out', r))
         | (out, Break) \<Rightarrow> Some (out, Returned)
         | (out, Raise e) \<Rightarrow> Some (out, Raised e))
      else Some ([], Returned))"

section \<open>Termination of the driver's loop\<close>

text \<open>
  Each pass that continues moves the cursor forward: \<^verbatim>\<open>instr_size\<close> is 2 to 4 in the
  first branch, 3 to 5 in the second, 2 or 3 in the third, and the last branch adds 1.
\<close>

lemma imm2reg_alt_size_positive:
  assumes "imm2reg_alt b1 b2 b3 b4 b5 = Inr (RetTuple instr instr_size)"
  shows "3 \<le> instr_size"
  using assms
  by (auto simp: imm2reg_alt_def Let_def split: option.splits if_splits)

lemma iteration_advances:
  assumes "iteration byte_list i = (out, Continue i')"
  shows "i < i'"
  using assms
  by (auto simp: iteration_def Let_def split: if_splits sum.splits ret.splits
           dest: imm2reg_alt_size_positive)

termination loop
  by (relation "measure (\<lambda>(byte_list, i). length byte_list - i)")
     (auto dest: iteration_advances iteration_advances [OF sym])

declare loop.simps [simp del]

lemma loop_at_end: "length byte_list \<le> i \<Longrightarrow> loop byte_list i = ([], Returned)"
  by (simp add: loop.simps)

lemma loop_fuel_enough:
  "length byte_list - i < fuel \<Longrightarrow> loop_fuel fuel byte_list i = Some (loop byte_list i)"
proof (induction fuel arbitrary: i)
  case 0
  then show ?case by simp
next
  case (Suc fuel)
  show ?case
  proof (cases "i < length byte_list")
    case False
    then show ?thesis by (simp add: loop.simps)
  next
    case True
    obtain out c where it: "iteration byte_list i = (out, c)"
      by (cases "iteration byte_list i")
    show ?thesis
    proof (cases c)
      case (Continue i')
      with it have "i < i'" by (simp add: iteration_advances)
      with True Suc.prems have "length byte_list - i' < fuel" by arith
      then have "loop_fuel fuel byte_list i' = Some (loop byte_list i')"
        by (rule Suc.IH)
      with True it Continue show ?thesis
        by (simp add: loop.simps [of byte_list i] split: prod.splits)
    next
      case Break
      with True it show ?thesis by (simp add: loop.simps [of byte_list i])
    next
      case (Raise e)
      with True it show ?thesis by (simp add: loop.simps [of byte_list i])
    qed
  qed
qed

text \<open>
  C10. For every list of bytes the driver's loop ends. A pass that does not stop
  (\<^verbatim>\<open>break\<close>, or an exception) leaves the cursor strictly greater than it found it; at
  a cursor that has reached the length of the list the loop is over, with nothing more
  printed; and so the loop started at cursor 0 on \<open>n\<close> bytes is over within \<open>n\<close>
  passes and one last test of its condition: with that bound on the passes,
  \<^const>\<open>loop_fuel\<close> returns the result of \<^const>\<open>disassemble\<close>.
\<close>

theorem disassemble_terminates:
  "(\<forall>i out i'. i < length byte_list \<longrightarrow> iteration byte_list i = (out, Continue i') \<longrightarrow> i < i') \<and>
   (\<forall>i. length byte_list \<le> i \<longrightarrow> loop byte_list i = ([], Returned)) \<and>
   loop_fuel (Suc (length byte_list)) byte_list 0 = Some (disassemble byte_list)"
proof (intro conjI allI impI)
  fix i out i'
  assume "iteration byte_list i = (out, Continue i')"
  then show "i < i'" by (rule iteration_advances)
next
  fix i
  assume "length byte_list \<le> i"
  then show "loop byte_list i = ([], Returned)" by (rule loop_at_end)
next
  have "length byte_list - 0 < Suc (length byte_list)" by simp
  then show "loop_fuel (Suc (length byte_list)) byte_list 0 = Some (disassemble byte_list)"
    unfolding disassemble_def by (rule loop_fuel_enough)
qed

theorem disassemble_terminates_witness:
  "iteration [0x01, 0xD8, 0x88] 0 =
     ([Processing 0x01 0, Using ''dec_reg2reg()'', Decoded ''add ax, bx'' [0x01, 0xD8]],
      Continue 2) \<and>
   (0::nat) < 2 \<and>
   loop [0x01, 0xD8, 0x88] 3 = ([], Returned) \<and>
   loop_fuel 4 [0x01, 0xD8, 0x88] 0 =
     Some ([Processing 0x01 0, Using ''dec_reg2reg()'', Decoded ''add ax, bx'' [0x01, 0xD8],
            Processing 0x88 2, UnknownOpcode 0x88 2], Returned)"
proof -
  let ?bs = "[0x01, 0xD8, 0x88] :: int list"
  have it: "iteration ?bs 0 =
      ([Processing 0x01 0, Using ''dec_reg2reg()'', Decoded ''add ax, bx'' [0x01, 0xD8]],
       Continue 2)"
    by code_simp
  have run: "disassemble ?bs =
      ([Processing 0x01 0, Using ''dec_reg2reg()'', Decoded ''add ax, bx'' [0x01, 0xD8],
        Processing 0x88 2, UnknownOpcode 0x88 2], Returned)"
    by code_simp
  note t = disassemble_terminates [of ?bs]
  from t it have "(0::nat) < 2" by simp
  moreover from t have "loop ?bs 3 = ([], Returned)" by simp
  moreover from t run have "loop_fuel 4 ?bs 0 =
      Some ([Processing 0x01 0, Using ''dec_reg2reg()'', Decoded ''add ax, bx'' [0x01, 0xD8],
             Processing 0x88 2, UnknownOpcode 0x88 2], Returned)"
    by (simp add: eval_nat_numeral)
  ultimately show ?thesis using it by blast
qed

section \<open>The driver and the MOV encodings\<close>

text \<open>
  The driver enters its first branch only for the opcodes \<open>000000\<close>, \<open>001010\<close> and
  \<open>001110\<close> (add, sub, cmp), its second for \<open>100000\<close> and its third for the three
  accumulator opcodes. No branch takes the MOV opcodes \<open>100010\<close> and \<open>1011\<close>, although
  \<^const>\<open>dec_reg2reg\<close> has a \<open>mov\<close> case and \<^const>\<open>dec_i2reg\<close> decodes nothing else:
  \<^const>\<open>dec_i2reg\<close> is never called.
\<close>

text \<open>
  C1. The claim: on the bytes \<open>[0x89, 0xD8]\<close> the driver emits \<open>mov ax, bx\<close> and
  consumes 2 bytes. The routine \<^const>\<open>dec_reg2reg\<close> gives that line, but the driver never
  calls it for this opcode: it prints "Unknown opcode" for \<open>0x89\<close>, moves one byte, and
  prints "Unknown opcode" for \<open>0xD8\<close>.
\<close>

theorem driver_skips_mov_reg2reg:
  "dec_reg2reg 0x89 0xD8 = ''mov ax, bx'' \<and>
   disassemble [0x89, 0xD8] =
     ([Processing 0x89 0, UnknownOpcode 0x89 0, Processing 0xD8 1, UnknownOpcode 0xD8 1],
      Returned)"
  by code_simp

text \<open>
  C2. The claim: on the bytes \<open>[0xB1, 0x0C]\<close> the driver emits \<open>mov cl, 12\<close>. The
  routine \<^const>\<open>dec_i2reg\<close> gives that line, but the driver has no branch that calls it:
  it prints "Unknown opcode" for each of the two bytes.
\<close>

theorem driver_skips_mov_imm2reg:
  "dec_i2reg 0xB1 (Some 0x0C) None = ''mov cl, 12'' \<and>
   disassemble [0xB1, 0x0C] =
     ([Processing 0xB1 0, UnknownOpcode 0xB1 0, Processing 0x0C 1, UnknownOpcode 0x0C 1],
      Returned)"
  by code_simp

text \<open>
  C7. The claim: the single byte \<open>[0x88]\<close> yields a missing-bytes fault and decoding
  stops. The driver prints "Unknown opcode" for \<open>0x88\<close> instead, since the opcode
  \<open>100010\<close> does not enter the branch that tests for the field byte; the same lone byte
  with an add opcode, \<open>[0x00]\<close>, does give "Error: Missing MODRM byte" and a
  \<^verbatim>\<open>break\<close>.
\<close>

theorem driver_lone_mov_byte_unknown:
  "disassemble [0x88] = ([Processing 0x88 0, UnknownOpcode 0x88 0], Returned) \<and>
   disassemble [0x00] = ([Processing 0x00 0, MissingModrm], Returned)"
  by code_simp

section \<open>The immediate-to-register-or-memory routine\<close>

text \<open>
  C3. The claim: with \<open>mod = 00\<close> and \<open>rm = 110\<close> every family consumes two more
  bytes as a direct address, and \<open>[0x83, 0x06, 0x00, 0x00, 0x07]\<close> decodes with length 5
  and immediate 7. \<^const>\<open>dec_modrm_instr\<close> and the driver's first branch do treat this
  case as a direct address; \<^const>\<open>imm2reg_alt\<close> does not: it renders \<open>byte [bp]\<close>, takes
  the third byte \<open>0x00\<close> as the immediate and returns length 3, so that the driver
  decodes the remaining \<open>[0x00, 0x07]\<close> as a second instruction.
\<close>

theorem imm2reg_alt_direct_address_missed:
  "disassemble [0x83, 0x06, 0x00, 0x00, 0x07] =
     ([Processing 0x83 0, Using ''imm2reg_alt()'',
       Decoded ''add byte [bp], 0'' [0x83, 0x06, 0x00],
       Processing 0x00 3, Using ''dec_modrm_instr()'',
       Decoded ''add [bx], al'' [0x00, 0x07]],
      Returned)"
  by code_simp

text \<open>
  C4. The claim: every routine that extracts an immediate reads a byte \<open>v \<ge> 128\<close> as
  \<open>v - 256\<close>. \<^const>\<open>dec_i2reg\<close> and \<^const>\<open>imm2acc\<close> do; \<^const>\<open>imm2reg_alt\<close> prints the
  byte as it is: \<open>[0x80, 0xC0, 0xFF]\<close> gives \<open>add al, 255\<close>, not \<open>add al, -1\<close>, and
  \<open>[0x83, 0xC6, 0xFF]\<close>, whose byte the processor extends by its sign to the word
  \<open>-1\<close>, gives \<open>add si, 255\<close>; the same byte gives \<open>-1\<close> in the two other routines.
  The routine reads the sign flag of the first byte into \<^verbatim>\<open>sflag\<close> and never uses it.
\<close>

theorem imm2reg_alt_immediate_unsigned:
  "imm2reg_alt 0x80 (Some 0xC0) (Some 0xFF) None None = Inr (RetTuple ''add al, 255'' 3) \<and>
   imm2reg_alt 0x83 (Some 0xC6) (Some 0xFF) None None = Inr (RetTuple ''add si, 255'' 3) \<and>
   disassemble [0x80, 0xC0, 0xFF] =
     ([Processing 0x80 0, Using ''imm2reg_alt()'',
       Decoded ''add al, 255'' [0x80, 0xC0, 0xFF]],
      Returned) \<and>
   imm2acc 0x04 (Some 0xFF) None = ''add al, -1'' \<and>
   dec_i2reg 0xB0 (Some 0xFF) None = ''mov al, -1''"
  by code_simp

text \<open>
  C6. The claim: an invalid sub-opcode, as in \<open>[0x80, 0x08]\<close>, is reported for the
  current position and decoding goes on. \<^const>\<open>imm2reg_alt\<close> returns the string
  \<open>Error: Invalid instruction code\<close> there, and the driver unpacks every result of that
  routine into two variables: on the string of 31 characters Python raises
  \<^verbatim>\<open>ValueError\<close>, nothing is reported, and the call ends. The bytes \<open>[0x00, 0xC0]\<close>
  (\<open>add al, al\<close>) are decoded on their own and never reached behind \<open>[0x80, 0x08]\<close>.
\<close>

theorem driver_aborts_on_invalid_sub_opcode:
  "imm2reg_alt 0x80 (Some 0x08) None None None = Inr (RetStr ''Error: Invalid instruction code'') \<and>
   disassemble [0x80, 0x08] = ([Processing 0x80 0, Using ''imm2reg_alt()''], Raised ValueError) \<and>
   disassemble [0x80, 0x08, 0x00, 0xC0] =
     ([Processing 0x80 0, Using ''imm2reg_alt()''], Raised ValueError) \<and>
   disassemble [0x00, 0xC0] =
     ([Processing 0x00 0, Using ''dec_reg2reg()'', Decoded ''add al, al'' [0x00, 0xC0]],
      Returned)"
  by code_simp


text \<open>
  C5. The claim: in this family the immediate takes 1 or 2 bytes by the word flag, and
  the length follows the mode and the word flag. \<^const>\<open>imm2reg_alt\<close> never reads a
  second immediate byte: \<open>[0x81, 0xC0, 0x34, 0x12]\<close> (\<open>add ax, 0x1234\<close>, word flag set,
  sign flag clear) gives \<open>add ax, 52\<close> with length 3, the same length and immediate as
  the byte form \<open>0x80\<close>, and the driver then takes the high byte \<open>0x12\<close> of the
  immediate for an opcode. \<^const>\<open>imm2acc\<close> and its branch of the driver do read the
  word: \<open>[0x05, 0x34, 0x12]\<close> gives \<open>add ax, 4660\<close> with all three bytes used.
\<close>

theorem imm2reg_alt_word_immediate_cut:
  "imm2reg_alt 0x81 (Some 0xC0) (Some 0x34) (Some 0x12) None = Inr (RetTuple ''add ax, 52'' 3) \<and>
   imm2reg_alt 0x80 (Some 0xC0) (Some 0x34) (Some 0x12) None = Inr (RetTuple ''add al, 52'' 3) \<and>
   disassemble [0x81, 0xC0, 0x34, 0x12] =
     ([Processing 0x81 0, Using ''imm2reg_alt()'',
       Decoded ''add ax, 52'' [0x81, 0xC0, 0x34],
       Processing 0x12 3, UnknownOpcode 0x12 3],
      Returned) \<and>
   disassemble [0x05, 0x34, 0x12] =
     ([Processing 0x05 0, Using ''imm2acc()'',
       Decoded ''add ax, 4660'' [0x05, 0x34, 0x12]],
      Returned)"
  by code_simp

section \<open>How memory operands are printed\<close>

text \<open>
  A displacement of zero is printed like any other, and \<^const>\<open>dec_modrm_instr\<close> prints
  the operand of \<open>mod = 10\<close> without brackets.
\<close>

theorem displacement_zero_printed:
  "dec_modrm_instr 0x00 0x40 (Some 0x00) None = ''add [bx + si + 0], al'' \<and>
   imm2reg_alt 0x80 (Some 0x40) (Some 0x00) (Some 0x07) None =
     Inr (RetTuple ''add byte [bx + si + 0], 7'' 4) \<and>
   dec_modrm_instr 0x00 0x80 (Some 0x05) (Some 0x00) = ''add bx + si + 5, al''"
  by code_simp

text \<open>
  C8, as the code has it. \<^const>\<open>dec_modrm_instr\<close> prints the memory operand of
  \<open>mod = 00\<close> as \<open>[base]\<close>, or as \<open>[0x....]\<close> for the direct address \<open>rm = 110\<close>,
  and that of \<open>mod = 01\<close> as \<open>[base + d]\<close>. \<^const>\<open>imm2reg_alt\<close> prints \<open>byte [base]\<close>
  for \<open>mod = 00\<close> and \<open>byte [base + d]\<close> or \<open>word [base + d]\<close> for \<open>mod = 01\<close> and
  \<open>mod = 10\<close>. The term \<open>+ d\<close> is absent only where the mode has no displacement; where
  there is one it is printed in signed decimal whatever its value, zero included.
\<close>

theorem memory_operand_rendering:
  "let rm = b2 AND 0b00000111;
       md = drop_bit 6 (b2 AND 0b11000000);
       base = eff_add_calc ! nat rm;
       reg = regtable ! nat (b1 AND 0b00000001) ! nat (drop_bit 3 (b2 AND 0b00111000));
       opcode = drop_bit 2 (b1 AND 0b11111100);
       mn = (if opcode = 0b000000 then ''add'' else if opcode = 0b001010 then ''sub'' else ''cmp'');
       line = (\<lambda>ea. if drop_bit 1 (b1 AND 0b00000010) \<noteq> 0
                      then mn @ '' '' @ reg @ '', '' @ ea
                      else mn @ '' '' @ ea @ '', '' @ reg);
       code = drop_bit 3 (b2 AND 0b00111000);
       mn' = (if code = 0b000 then ''add'' else if code = 0b101 then ''sub'' else ''cmp'');
       width = (if b1 AND 0b00000001 \<noteq> 0 then ''word'' else ''byte'');
       disp8 = (if v3 > 127 then v3 - 256 else v3);
       disp16 = (if push_bit 8 v4 OR v3 > 32767 then (push_bit 8 v4 OR v3) - 65536
                 else push_bit 8 v4 OR v3)
   in (opcode \<in> {0b000000, 0b001010, 0b001110} \<longrightarrow>
         (md = 0b00 \<and> rm \<noteq> 0b110 \<longrightarrow>
            dec_modrm_instr b1 b2 b3 b4 = line (''['' @ base @ '']'')) \<and>
         (md = 0b00 \<and> rm = 0b110 \<longrightarrow>
            dec_modrm_instr b1 b2 (Some v3) (Some v4) =
              line (''[0x'' @ py_hex04 (push_bit 8 v4 OR v3) @ '']'')) \<and>
         (md = 0b01 \<longrightarrow>
            dec_modrm_instr b1 b2 (Some v3) b4 =
              line (''['' @ base @ '' + '' @ py_str disp8 @ '']''))) \<and>
      (code \<in> {0b000, 0b101, 0b111} \<longrightarrow>
         (md = 0b00 \<longrightarrow>
            imm2reg_alt b1 (Some b2) b3 b4 b5 =
              Inr (RetTuple (mn' @ '' byte ['' @ base @ ''], '' @ py_str_opt b3) 3)) \<and>
         (md = 0b01 \<longrightarrow>
            imm2reg_alt b1 (Some b2) (Some v3) b4 b5 =
              Inr (RetTuple (mn' @ '' '' @ width @ '' ['' @ base @ '' + '' @ py_str disp8 @
                             ''], '' @ py_str_opt (if b5 = None then b4 else b5)) 4)) \<and>
         (md = 0b10 \<longrightarrow>
            imm2reg_alt b1 (Some b2) (Some v3) (Some v4) b5 =
              Inr (RetTuple (mn' @ '' '' @ width @ '' ['' @ base @ '' + '' @ py_str disp16 @
                             ''], '' @ py_str_opt b5) 5)))"
  by (auto simp: Let_def dec_modrm_instr_def imm2reg_alt_def py_truthy_def)

theorem memory_operand_rendering_witness:
  "dec_modrm_instr 0x00 0x40 (Some 0x00) None = ''add [bx + si + 0], al'' \<and>
   dec_modrm_instr 0x2B 0x47 (Some 0xFE) None = ''sub ax, [bx + -2]'' \<and>
   dec_modrm_instr 0x00 0x07 None None = ''add [bx], al'' \<and>
   dec_modrm_instr 0x3B 0x06 (Some 0x34) (Some 0x12) = ''cmp ax, [0x1234]'' \<and>
   imm2reg_alt 0x80 (Some 0x07) (Some 0x09) None None = Inr (RetTuple ''add byte [bx], 9'' 3) \<and>
   imm2reg_alt 0x80 (Some 0x40) (Some 0x00) (Some 0x07) None =
     Inr (RetTuple ''add byte [bx + si + 0], 7'' 4) \<and>
   imm2reg_alt 0x81 (Some 0xAE) (Some 0x00) (Some 0x01) (Some 0x07) =
     Inr (RetTuple ''sub word [bp + 256], 7'' 5)"
proof -
  note defs = Let_def regtable_def eff_add_calc_def py_str_def py_str_opt_def py_hex04_def
    dec_digits.simps hex_digits.simps digit_char_def
  have "dec_modrm_instr 0x00 0x40 (Some 0x00) None = ''add [bx + si + 0], al''"
    using memory_operand_rendering [of "0x40" "0x00" "0x00" 0 "None" "None" "None"]
    by (simp add: defs)
  moreover have "dec_modrm_instr 0x2B 0x47 (Some 0xFE) None = ''sub ax, [bx + -2]''"
    using memory_operand_rendering [of "0x47" "0x2B" "0xFE" 0 "None" "None" "None"]
    by (simp add: defs)
  moreover have "dec_modrm_instr 0x00 0x07 None None = ''add [bx], al''"
    using memory_operand_rendering [of "0x07" "0x00" 0 0 "None" "None" "None"]
    by (simp add: defs)
  moreover have "dec_modrm_instr 0x3B 0x06 (Some 0x34) (Some 0x12) = ''cmp ax, [0x1234]''"
    using memory_operand_rendering [of "0x06" "0x3B" "0x34" "0x12" "None" "None" "None"]
    by (simp add: defs)
  moreover have "imm2reg_alt 0x80 (Some 0x07) (Some 0x09) None None =
      Inr (RetTuple ''add byte [bx], 9'' 3)"
    using memory_operand_rendering [of "0x07" "0x80" 0 0 "Some 0x09" "None" "None"]
    by (simp add: defs)
  moreover have "imm2reg_alt 0x80 (Some 0x40) (Some 0x00) (Some 0x07) None =
      Inr (RetTuple ''add byte [bx + si + 0], 7'' 4)"
    using memory_operand_rendering [of "0x40" "0x80" "0x00" 0 "None" "Some 0x07" "None"]
    by (simp add: defs)
  moreover have "imm2reg_alt 0x81 (Some 0xAE) (Some 0x00) (Some 0x01) (Some 0x07) =
      Inr (RetTuple ''sub word [bp + 256], 7'' 5)"
    using memory_operand_rendering [of "0xAE" "0x81" "0x00" "0x01" "None" "None" "Some 0x07"]
    by (simp add: defs)
  ultimately show ?thesis by blast
qed

section \<open>The immediate-to-accumulator routine\<close>

text \<open>
  C9. The condition that guards the extraction of the immediate in \<^const>\<open>imm2acc\<close>
  holds for every opcode, so the branch \<^verbatim>\<open>imm = b2\<close> is never taken: for all inputs the
  routine returns what its two's-complement path returns, whichever of add, sub and cmp
  the opcode selects.
\<close>

theorem imm2acc_guard_always_true:
  "imm2acc_guard opcode \<and>
   imm2acc b1 b2 b3 =
     (let wflag = b1 AND 0b00000001;
          dest = regtable ! nat wflag ! 0;
          opc = drop_bit 1 (b1 AND 0b11111110);
          instruction = (if opc = 0b0000010 then ''add''
                         else if opc = 0b0010110 then ''sub''
                         else ''cmp'')
      in if wflag = 0 then
           (case b2 of
              None \<Rightarrow> ''Error: Missing immediate value''
            | Some v \<Rightarrow>
                instruction @ '' '' @ dest @ '', '' @ py_str (if v > 127 then v - 256 else v))
         else
           (case (b2, b3) of
              (Some lo, Some hi) \<Rightarrow>
                instruction @ '' '' @ dest @ '', '' @
                py_str (if push_bit 8 hi OR lo > 32767 then (push_bit 8 hi OR lo) - 65536
                        else push_bit 8 hi OR lo)
            | _ \<Rightarrow> ''Error: Missing immediate word''))"
  by (simp add: imm2acc_guard_def py_truthy_def imm2acc_def Let_def split: option.splits)

theorem imm2acc_guard_always_true_witness:
  "imm2acc_guard (drop_bit 1 (0x3C AND 0b11111110)) \<and>
   imm2acc 0x3C (Some 0xFF) None = ''cmp al, -1'' \<and>
   imm2acc 0x2D (Some 0xFF) (Some 0xFF) = ''sub ax, -1''"
proof -
  have "imm2acc_guard (drop_bit 1 (0x3C AND 0b11111110))"
    using imm2acc_guard_always_true [of "drop_bit 1 (0x3C AND 0b11111110)" 0 None None] by blast
  moreover have "imm2acc 0x3C (Some 0xFF) None = ''cmp al, -1''"
    by code_simp
  moreover have "imm2acc 0x2D (Some 0xFF) (Some 0xFF) = ''sub ax, -1''"
    by code_simp
  ultimately show ?thesis by blast
qed

end
